theory Spec2Isabelle
  imports Main "HOL-Library.Multiset"
begin

section \<open>Values of the program\<close>

text \<open>
  A Python \<open>str\<close> is held as the list of its UTF-8 bytes (\<^typ>\<open>string\<close>).  The code below
  only concatenates and compares strings, and both commute with the encoding.

  \<open>f"T{idx}"\<close> renders a positive integer in decimal.
\<close>

definition digit_char :: "nat \<Rightarrow> char" where
  "digit_char d = char_of (48 + d)"

fun str_nat :: "nat \<Rightarrow> string" where
  "str_nat n = (if n < 10 then [digit_char n] else str_nat (n div 10) @ [digit_char (n mod 10)])"

declare str_nat.simps [simp del]

text \<open>The decimal reading of a digit string; used to show that \<^const>\<open>str_nat\<close> is injective.\<close>

definition digit_val :: "char \<Rightarrow> nat" where
  "digit_val c = of_char c - 48"

definition nat_of_str :: "string \<Rightarrow> nat" where
  "nat_of_str s = foldl (\<lambda>a c. 10 * a + digit_val c) 0 s"

section \<open>src/subagent.py\<close>

text \<open>
  \<^verbatim>\<open>class SubAgent\<close>: the constructor stores the task and \<^verbatim>\<open>context or {}\<close>; a dict is an
  association list.
\<close>

record SubAgent =
  task :: string
  context_dict :: "(string \<times> string) list"

definition SubAgent_init :: "string \<Rightarrow> (string \<times> string) list option \<Rightarrow> SubAgent" where
  "SubAgent_init t c =
     \<lparr>task = t, context_dict = (case c of None \<Rightarrow> [] | Some d \<Rightarrow> if d = [] then [] else d)\<rparr>"

text \<open>
  An exception object, as far as \<^verbatim>\<open>split_subagents\<close> looks at it: whether it is an instance
  of the class \<^verbatim>\<open>Exception\<close> (a \<^verbatim>\<open>SystemExit\<close> or a \<^verbatim>\<open>KeyboardInterrupt\<close> is not), and what
  \<^verbatim>\<open>str(exc)\<close> returns, \<open>None\<close> when \<^verbatim>\<open>__str__\<close> itself raises.
\<close>

datatype exn = Exn (is_Exception: bool) (str: "string option")

text \<open>
  What a call leaves in its future: the value returned or the exception raised.  The pool
  stores every exception of the call in the future, of whatever class.
\<close>

datatype completed = Returned string | Raised exn

text \<open>\<^verbatim>\<open>SubAgent.run\<close>: \<^verbatim>\<open>return f"SubAgent completed task: {self.task}"\<close>.\<close>

definition SubAgent_run :: "SubAgent \<Rightarrow> completed" where
  "SubAgent_run self = Returned (''SubAgent completed task: '' @ task self)"

section \<open>src/agent.py: MorphAgent.split\_subagents\<close>

text \<open>
  The errors that leave a call: the \<^verbatim>\<open>ValueError\<close> of a constructor or of a dict lookup, an
  exception of a worker that \<^verbatim>\<open>future.result()\<close> raises again and \<^verbatim>\<open>except Exception\<close> does
  not catch, and the failure of \<^verbatim>\<open>str(exc)\<close> inside the handler.
\<close>

datatype error = ValueError string | Uncaught exn | Str_failed exn

type_synonym outcome = "(string \<times> string) list"

text \<open>
  \<^verbatim>\<open>ThreadPoolExecutor(max_workers=num_agents)\<close>: the constructor of the standard library
  raises \<^verbatim>\<open>ValueError("max_workers must be greater than 0")\<close> when \<^verbatim>\<open>max_workers <= 0\<close>.
  The field \<open>invoked\<close> logs the worker instances whose \<^verbatim>\<open>run\<close> the pool has called; leaving
  the \<^verbatim>\<open>with\<close> block waits for every submitted call, also when an exception ends the loop.
\<close>

record executor =
  max_workers :: int
  invoked :: "SubAgent list"

definition ThreadPoolExecutor :: "int \<Rightarrow> error + executor" where
  "ThreadPoolExecutor n =
     (if n \<le> 0 then Inl (ValueError ''max_workers must be greater than 0'')
      else Inr \<lparr>max_workers = n, invoked = []\<rparr>)"

text \<open>
  \<^verbatim>\<open>executor.submit(SubAgent(template).run)\<close>: the pool calls the bound method once, and
  the future holds what the call left.  The method is a parameter \<open>run\<close>, since the name
  \<^verbatim>\<open>SubAgent\<close> is looked up when the call happens; the repository binds it to
  \<^const>\<open>SubAgent_run\<close>.
\<close>

definition submit :: "(SubAgent \<Rightarrow> completed) \<Rightarrow> executor \<Rightarrow> SubAgent \<Rightarrow> completed \<times> executor" where
  "submit run ex a = (run a, ex\<lparr>invoked := invoked ex @ [a]\<rparr>)"

text \<open>The list comprehension \<^verbatim>\<open>[executor.submit(SubAgent(template).run) for template in task_templates]\<close>.\<close>

fun submit_all ::
  "(SubAgent \<Rightarrow> completed) \<Rightarrow> executor \<Rightarrow> string list \<Rightarrow> completed list \<Rightarrow> completed list \<times> executor"
where
  "submit_all run ex [] futures = (futures, ex)"
| "submit_all run ex (template # rest) futures =
     (case submit run ex (SubAgent_init template None) of
        (future, ex') \<Rightarrow> submit_all run ex' rest (futures @ [future]))"

text \<open>
  \<^verbatim>\<open>concurrent.futures.as_completed(futures)\<close> yields every future of the list once.  Which
  of the futures not yet yielded comes next is not fixed by the program: the futures that
  are finished when the call starts come in the iteration order of a set, the others as
  their threads finish.  The parameter \<open>choices\<close> decides it: its head \<open>c\<close> selects, among
  the \<open>n\<close> futures not yet yielded, the one at position \<open>c mod n\<close>, and its tail decides the
  rest; where \<open>choices\<close> has run out, the first one is taken.  Every order of the futures
  is the result of some \<open>choices\<close> (lemma \<open>as_completed_any_order\<close>).
\<close>

definition next_choice :: "nat list \<Rightarrow> nat \<Rightarrow> nat" where
  "next_choice choices n = (case choices of [] \<Rightarrow> 0 | c # _ \<Rightarrow> c mod n)"

function as_completed :: "'a list \<Rightarrow> nat list \<Rightarrow> 'a list" where
  "as_completed [] choices = []"
| "as_completed (f # fs) choices =
     (let k = next_choice choices (length (f # fs))
      in (f # fs) ! k # as_completed (take k (f # fs) @ drop (Suc k) (f # fs)) (tl choices))"
  by pat_completeness auto
termination
proof (relation "measure (\<lambda>(fs, choices). length fs)")
  show "wf (measure (\<lambda>(fs, choices). length fs))" by simp
next
  fix f :: 'a and fs choices k
  assume "k = next_choice choices (length (f # fs))"
  then have "k < length (f # fs)" by (simp add: next_choice_def split: list.splits)
  then show "((take k (f # fs) @ drop (Suc k) (f # fs), tl choices), (f # fs, choices))
               \<in> measure (\<lambda>(fs, choices). length fs)"
    by simp
qed

declare as_completed.simps [simp del]

text \<open>
  The submission positions \<open>0..<n\<close> in the order in which \<^const>\<open>as_completed\<close> yields \<open>n\<close>
  futures under \<open>choices\<close>.
\<close>

definition yield_order :: "nat \<Rightarrow> nat list \<Rightarrow> nat list" where
  "yield_order n choices = as_completed [0..<n] choices"

text \<open>
  The body of the \<^verbatim>\<open>for\<close> loop.  \<^verbatim>\<open>future.result()\<close> returns the value or raises the stored
  exception again; \<^verbatim>\<open>except Exception as exc\<close> catches an instance of \<^verbatim>\<open>Exception\<close> only, and
  the handler evaluates \<^verbatim>\<open>str(exc)\<close>.
\<close>

fun record_outcome :: "nat \<Rightarrow> completed \<Rightarrow> error + outcome" where
  "record_outcome idx (Returned res) =
     Inr [(''task_id'', ''T'' @ str_nat idx), (''status'', ''success''), (''result'', res)]"
| "record_outcome idx (Raised exc) =
     (if is_Exception exc then
        (case str exc of
           Some description \<Rightarrow>
             Inr [(''task_id'', ''T'' @ str_nat idx), (''status'', ''error''), (''error'', description)]
         | None \<Rightarrow> Inl (Str_failed exc))
      else Inl (Uncaught exc))"

text \<open>
  \<^verbatim>\<open>for idx, future in enumerate(..., 1): results.append(...)\<close>; an exception that is not
  caught ends the loop and the call.
\<close>

fun collect :: "nat \<Rightarrow> completed list \<Rightarrow> outcome list \<Rightarrow> error + outcome list" where
  "collect idx [] results = Inr results"
| "collect idx (future # rest) results =
     (case record_outcome idx future of
        Inl e \<Rightarrow> Inl e
      | Inr r \<Rightarrow> collect (idx + 1) rest (results @ [r]))"

text \<open>
  The futures whose exception, if any, the handler turns into an outcome: an instance of
  \<^verbatim>\<open>Exception\<close> whose \<^verbatim>\<open>str\<close> returns.
\<close>

fun caught :: "completed \<Rightarrow> bool" where
  "caught (Returned res) = True"
| "caught (Raised exc) = (is_Exception exc \<and> str exc \<noteq> None)"

text \<open>
  The method returns the list \<open>results\<close> or raises; the second component is the list of
  workers that were invoked during the call.
\<close>

definition split_subagents_with ::
  "(SubAgent \<Rightarrow> completed) \<Rightarrow> int \<Rightarrow> string list \<Rightarrow> nat list \<Rightarrow> (error + outcome list) \<times> SubAgent list"
where
  "split_subagents_with run num_agents task_templates choices =
     (case ThreadPoolExecutor num_agents of
        Inl e \<Rightarrow> (Inl e, [])
      | Inr ex \<Rightarrow>
          (case submit_all run ex task_templates [] of
             (futures, ex') \<Rightarrow> (collect 1 (as_completed futures choices) [], invoked ex')))"

definition split_subagents :: "int \<Rightarrow> string list \<Rightarrow> nat list \<Rightarrow> (error + outcome list) \<times> SubAgent list" where
  "split_subagents = split_subagents_with SubAgent_run"

section \<open>src/agent.py: CodingAgent.\_generate\_coding\_tasks\<close>

text \<open>
  The slice \<^verbatim>\<open>xs[:k]\<close> of Python: a negative \<open>k\<close> counts from the end, and the bound is
  clamped to the list.
\<close>

definition slice_to :: "'a list \<Rightarrow> int \<Rightarrow> 'a list" where
  "slice_to xs k = take (nat (if k < 0 then int (length xs) + k else k)) xs"

text \<open>The list \<^verbatim>\<open>tasks\<close> of \<^verbatim>\<open>_generate_review_tasks\<close>.\<close>

definition review_tasks :: "string list" where
  "review_tasks =
    [[CHR 0xE5, CHR 0xAE, CHR 0xA1, CHR 0xE6, CHR 0x9F, CHR 0xA5, CHR 0xE4, CHR 0xBB, CHR 0xA3,
     CHR 0xE7, CHR 0xA0, CHR 0x81, CHR 0xE8, CHR 0xA7, CHR 0x84, CHR 0xE8, CHR 0x8C, CHR 0x83,
     CHR 0xE4, CHR 0xB8, CHR 0x8E, CHR 0xE9, CHR 0xA3, CHR 0x8E, CHR 0xE6, CHR 0xA0, CHR 0xBC,
     CHR 0xEF, CHR 0xBC, CHR 0x8C, CHR 0xE6, CHR 0xA3, CHR 0x80, CHR 0xE6, CHR 0x9F, CHR 0xA5] @
     ''PEP8'' @ [CHR 0xE5, CHR 0x90, CHR 0x88, CHR 0xE8, CHR 0xA7, CHR 0x84, CHR 0xE6, CHR 0x80,
     CHR 0xA7],
     [CHR 0xE5, CHR 0x88, CHR 0x86, CHR 0xE6, CHR 0x9E, CHR 0x90, CHR 0xE4, CHR 0xBB, CHR 0xA3,
     CHR 0xE7, CHR 0xA0, CHR 0x81, CHR 0xE6, CHR 0x80, CHR 0xA7, CHR 0xE8, CHR 0x83, CHR 0xBD,
     CHR 0xE7, CHR 0x93, CHR 0xB6, CHR 0xE9, CHR 0xA2, CHR 0x88, CHR 0xEF, CHR 0xBC, CHR 0x8C,
     CHR 0xE6, CHR 0x8F, CHR 0x90, CHR 0xE5, CHR 0x87, CHR 0xBA, CHR 0xE4, CHR 0xBC, CHR 0x98,
     CHR 0xE5, CHR 0x8C, CHR 0x96, CHR 0xE5, CHR 0xBB, CHR 0xBA, CHR 0xE8, CHR 0xAE, CHR 0xAE],
     [CHR 0xE8, CHR 0xAF, CHR 0x86, CHR 0xE5, CHR 0x88, CHR 0xAB, CHR 0xE6, CHR 0xBD, CHR 0x9C,
     CHR 0xE5, CHR 0x9C, CHR 0xA8, CHR 0xE5, CHR 0xAE, CHR 0x89, CHR 0xE5, CHR 0x85, CHR 0xA8,
     CHR 0xE6, CHR 0xBC, CHR 0x8F, CHR 0xE6, CHR 0xB4, CHR 0x9E, CHR 0xE4, CHR 0xB8, CHR 0x8E,
     CHR 0xE9, CHR 0xA3, CHR 0x8E, CHR 0xE9, CHR 0x99, CHR 0xA9, CHR 0xE7, CHR 0x82, CHR 0xB9],
     [CHR 0xE8, CHR 0xAF, CHR 0x84, CHR 0xE4, CHR 0xBC, CHR 0xB0, CHR 0xE4, CHR 0xBB, CHR 0xA3,
     CHR 0xE7, CHR 0xA0, CHR 0x81, CHR 0xE5, CHR 0x8F, CHR 0xAF, CHR 0xE8, CHR 0xAF, CHR 0xBB,
     CHR 0xE6, CHR 0x80, CHR 0xA7, CHR 0xE4, CHR 0xB8, CHR 0x8E, CHR 0xE5, CHR 0x8F, CHR 0xAF,
     CHR 0xE7, CHR 0xBB, CHR 0xB4, CHR 0xE6, CHR 0x8A, CHR 0xA4, CHR 0xE6, CHR 0x80, CHR 0xA7],
     [CHR 0xE6, CHR 0xA3, CHR 0x80, CHR 0xE6, CHR 0x9F, CHR 0xA5, CHR 0xE9, CHR 0x94, CHR 0x99,
     CHR 0xE8, CHR 0xAF, CHR 0xAF, CHR 0xE5, CHR 0xA4, CHR 0x84, CHR 0xE7, CHR 0x90, CHR 0x86,
     CHR 0xE4, CHR 0xB8, CHR 0x8E, CHR 0xE8, CHR 0xBE, CHR 0xB9, CHR 0xE7, CHR 0x95, CHR 0x8C,
     CHR 0xE6, CHR 0x83, CHR 0x85, CHR 0xE5, CHR 0x86, CHR 0xB5, CHR 0xE8, CHR 0xA6, CHR 0x86,
     CHR 0xE7, CHR 0x9B, CHR 0x96]]"

definition generate_review_tasks :: "int \<Rightarrow> string option \<Rightarrow> string list" where
  "generate_review_tasks num_agents project_id = slice_to review_tasks num_agents"

text \<open>The list \<^verbatim>\<open>tasks\<close> of \<^verbatim>\<open>_generate_refactor_tasks\<close>.\<close>

definition refactor_tasks :: "string list" where
  "refactor_tasks =
    [[CHR 0xE9, CHR 0x87, CHR 0x8D, CHR 0xE6, CHR 0x9E, CHR 0x84, CHR 0xE5, CHR 0x87, CHR 0xBD,
     CHR 0xE6, CHR 0x95, CHR 0xB0, CHR 0xE4, CHR 0xB8, CHR 0x8E, CHR 0xE7, CHR 0xB1, CHR 0xBB,
     CHR 0xE7, CHR 0xBB, CHR 0x93, CHR 0xE6, CHR 0x9E, CHR 0x84, CHR 0xEF, CHR 0xBC, CHR 0x8C,
     CHR 0xE6, CHR 0x8F, CHR 0x90, CHR 0xE5, CHR 0x8D, CHR 0x87, CHR 0xE4, CHR 0xBB, CHR 0xA3,
     CHR 0xE7, CHR 0xA0, CHR 0x81, CHR 0xE5, CHR 0xA4, CHR 0x8D, CHR 0xE7, CHR 0x94, CHR 0xA8,
     CHR 0xE6, CHR 0x80, CHR 0xA7],
     [CHR 0xE4, CHR 0xBC, CHR 0x98, CHR 0xE5, CHR 0x8C, CHR 0x96, CHR 0xE5, CHR 0x8F, CHR 0x98,
     CHR 0xE9, CHR 0x87, CHR 0x8F, CHR 0xE4, CHR 0xB8, CHR 0x8E, CHR 0xE5, CHR 0x87, CHR 0xBD,
     CHR 0xE6, CHR 0x95, CHR 0xB0, CHR 0xE5, CHR 0x91, CHR 0xBD, CHR 0xE5, CHR 0x90, CHR 0x8D,
     CHR 0xEF, CHR 0xBC, CHR 0x8C, CHR 0xE6, CHR 0x8F, CHR 0x90, CHR 0xE9, CHR 0xAB, CHR 0x98,
     CHR 0xE5, CHR 0x8F, CHR 0xAF, CHR 0xE8, CHR 0xAF, CHR 0xBB, CHR 0xE6, CHR 0x80, CHR 0xA7],
     [CHR 0xE7, CHR 0xAE, CHR 0x80, CHR 0xE5, CHR 0x8C, CHR 0x96, CHR 0xE5, CHR 0xA4, CHR 0x8D,
     CHR 0xE6, CHR 0x9D, CHR 0x82, CHR 0xE9, CHR 0x80, CHR 0xBB, CHR 0xE8, CHR 0xBE, CHR 0x91,
     CHR 0xEF, CHR 0xBC, CHR 0x8C, CHR 0xE6, CHR 0x8B, CHR 0x86, CHR 0xE5, CHR 0x88, CHR 0x86,
     CHR 0xE5, CHR 0xA4, CHR 0xA7, CHR 0xE5, CHR 0x9E, CHR 0x8B, CHR 0xE5, CHR 0x87, CHR 0xBD,
     CHR 0xE6, CHR 0x95, CHR 0xB0],
     [CHR 0xE6, CHR 0xB6, CHR 0x88, CHR 0xE9, CHR 0x99, CHR 0xA4, CHR 0xE4, CHR 0xBB, CHR 0xA3,
     CHR 0xE7, CHR 0xA0, CHR 0x81, CHR 0xE9, CHR 0x87, CHR 0x8D, CHR 0xE5, CHR 0xA4, CHR 0x8D,
     CHR 0xEF, CHR 0xBC, CHR 0x8C, CHR 0xE6, CHR 0x8F, CHR 0x90, CHR 0xE5, CHR 0x8F, CHR 0x96,
     CHR 0xE5, CHR 0x85, CHR 0xAC, CHR 0xE5, CHR 0x85, CHR 0xB1, CHR 0xE5, CHR 0x8A, CHR 0x9F,
     CHR 0xE8, CHR 0x83, CHR 0xBD],
     [CHR 0xE4, CHR 0xBC, CHR 0x98, CHR 0xE5, CHR 0x8C, CHR 0x96, CHR 0xE5, CHR 0xAF, CHR 0xBC,
     CHR 0xE5, CHR 0x85, CHR 0xA5, CHR 0xE7, CHR 0xBB, CHR 0x93, CHR 0xE6, CHR 0x9E, CHR 0x84,
     CHR 0xEF, CHR 0xBC, CHR 0x8C, CHR 0xE5, CHR 0x87, CHR 0x8F, CHR 0xE5, CHR 0xB0, CHR 0x91,
     CHR 0xE5, CHR 0xBE, CHR 0xAA, CHR 0xE7, CHR 0x8E, CHR 0xAF, CHR 0xE4, CHR 0xBE, CHR 0x9D,
     CHR 0xE8, CHR 0xB5, CHR 0x96]]"

definition generate_refactor_tasks :: "int \<Rightarrow> string option \<Rightarrow> string list" where
  "generate_refactor_tasks num_agents project_id = slice_to refactor_tasks num_agents"

text \<open>The list \<^verbatim>\<open>tasks\<close> of \<^verbatim>\<open>_generate_test_tasks\<close>.\<close>

definition test_tasks :: "string list" where
  "test_tasks =
    [[CHR 0xE7, CHR 0xBC, CHR 0x96, CHR 0xE5, CHR 0x86, CHR 0x99, CHR 0xE5, CHR 0x8D, CHR 0x95,
     CHR 0xE5, CHR 0x85, CHR 0x83, CHR 0xE6, CHR 0xB5, CHR 0x8B, CHR 0xE8, CHR 0xAF, CHR 0x95,
     CHR 0xEF, CHR 0xBC, CHR 0x8C, CHR 0xE8, CHR 0xA6, CHR 0x86, CHR 0xE7, CHR 0x9B, CHR 0x96,
     CHR 0xE6, CHR 0xA0, CHR 0xB8, CHR 0xE5, CHR 0xBF, CHR 0x83, CHR 0xE5, CHR 0x8A, CHR 0x9F,
     CHR 0xE8, CHR 0x83, CHR 0xBD],
     [CHR 0xE8, CHR 0xAE, CHR 0xBE, CHR 0xE8, CHR 0xAE, CHR 0xA1, CHR 0xE9, CHR 0x9B, CHR 0x86,
     CHR 0xE6, CHR 0x88, CHR 0x90, CHR 0xE6, CHR 0xB5, CHR 0x8B, CHR 0xE8, CHR 0xAF, CHR 0x95,
     CHR 0xEF, CHR 0xBC, CHR 0x8C, CHR 0xE9, CHR 0xAA, CHR 0x8C, CHR 0xE8, CHR 0xAF, CHR 0x81,
     CHR 0xE6, CHR 0xA8, CHR 0xA1, CHR 0xE5, CHR 0x9D, CHR 0x97, CHR 0xE4, CHR 0xBA, CHR 0xA4,
     CHR 0xE4, CHR 0xBA, CHR 0x92],
     [CHR 0xE5, CHR 0x88, CHR 0x9B, CHR 0xE5, CHR 0xBB, CHR 0xBA, CHR 0xE8, CHR 0xBE, CHR 0xB9,
     CHR 0xE7, CHR 0x95, CHR 0x8C, CHR 0xE6, CHR 0x9D, CHR 0xA1, CHR 0xE4, CHR 0xBB, CHR 0xB6,
     CHR 0xE4, CHR 0xB8, CHR 0x8E, CHR 0xE5, CHR 0xBC, CHR 0x82, CHR 0xE5, CHR 0xB8, CHR 0xB8,
     CHR 0xE6, CHR 0xB5, CHR 0x8B, CHR 0xE8, CHR 0xAF, CHR 0x95, CHR 0xE7, CHR 0x94, CHR 0xA8,
     CHR 0xE4, CHR 0xBE, CHR 0x8B],
     [CHR 0xE5, CHR 0xAE, CHR 0x9E, CHR 0xE7, CHR 0x8E, CHR 0xB0, CHR 0xE6, CHR 0x80, CHR 0xA7,
     CHR 0xE8, CHR 0x83, CHR 0xBD, CHR 0xE6, CHR 0xB5, CHR 0x8B, CHR 0xE8, CHR 0xAF, CHR 0x95,
     CHR 0xEF, CHR 0xBC, CHR 0x8C, CHR 0xE5, CHR 0xBB, CHR 0xBA, CHR 0xE7, CHR 0xAB, CHR 0x8B,
     CHR 0xE5, CHR 0x9F, CHR 0xBA, CHR 0xE5, CHR 0x87, CHR 0x86, CHR 0xE6, CHR 0x8C, CHR 0x87,
     CHR 0xE6, CHR 0xA0, CHR 0x87],
     [CHR 0xE7, CHR 0x94, CHR 0x9F, CHR 0xE6, CHR 0x88, CHR 0x90, CHR 0xE6, CHR 0xB5, CHR 0x8B,
     CHR 0xE8, CHR 0xAF, CHR 0x95, CHR 0xE6, CHR 0x8A, CHR 0xA5, CHR 0xE5, CHR 0x91, CHR 0x8A,
     CHR 0xE4, CHR 0xB8, CHR 0x8E, CHR 0xE8, CHR 0xA6, CHR 0x86, CHR 0xE7, CHR 0x9B, CHR 0x96,
     CHR 0xE7, CHR 0x8E, CHR 0x87, CHR 0xE5, CHR 0x88, CHR 0x86, CHR 0xE6, CHR 0x9E, CHR 0x90]]"

definition generate_test_tasks :: "int \<Rightarrow> string option \<Rightarrow> string list" where
  "generate_test_tasks num_agents project_id = slice_to test_tasks num_agents"

text \<open>The list \<^verbatim>\<open>tasks\<close> of \<^verbatim>\<open>_generate_document_tasks\<close>.\<close>

definition document_tasks :: "string list" where
  "document_tasks =
    [[CHR 0xE7, CHR 0xBC, CHR 0x96, CHR 0xE5, CHR 0x86, CHR 0x99] @ ''API'' @ [CHR 0xE6,
     CHR 0x96, CHR 0x87, CHR 0xE6, CHR 0xA1, CHR 0xA3, CHR 0xEF, CHR 0xBC, CHR 0x8C, CHR 0xE8,
     CHR 0xAF, CHR 0xB4, CHR 0xE6, CHR 0x98, CHR 0x8E, CHR 0xE5, CHR 0x87, CHR 0xBD, CHR 0xE6,
     CHR 0x95, CHR 0xB0, CHR 0xE4, CHR 0xB8, CHR 0x8E, CHR 0xE7, CHR 0xB1, CHR 0xBB, CHR 0xE7,
     CHR 0x94, CHR 0xA8, CHR 0xE6, CHR 0xB3, CHR 0x95],
     [CHR 0xE5, CHR 0x88, CHR 0x9B, CHR 0xE5, CHR 0xBB, CHR 0xBA, CHR 0xE9, CHR 0xA1, CHR 0xB9,
     CHR 0xE7, CHR 0x9B, CHR 0xAE] @ '' README'' @ [CHR 0xEF, CHR 0xBC, CHR 0x8C, CHR 0xE4,
     CHR 0xBB, CHR 0x8B, CHR 0xE7, CHR 0xBB, CHR 0x8D, CHR 0xE6, CHR 0x95, CHR 0xB4, CHR 0xE4,
     CHR 0xBD, CHR 0x93, CHR 0xE5, CHR 0x8A, CHR 0x9F, CHR 0xE8, CHR 0x83, CHR 0xBD],
     [CHR 0xE7, CHR 0x94, CHR 0x9F, CHR 0xE6, CHR 0x88, CHR 0x90, CHR 0xE5, CHR 0xBC, CHR 0x80,
     CHR 0xE5, CHR 0x8F, CHR 0x91, CHR 0xE6, CHR 0x8C, CHR 0x87, CHR 0xE5, CHR 0x8D, CHR 0x97,
     CHR 0xEF, CHR 0xBC, CHR 0x8C, CHR 0xE6, CHR 0x8C, CHR 0x87, CHR 0xE5, CHR 0xAF, CHR 0xBC,
     CHR 0xE7, CHR 0x8E, CHR 0xAF, CHR 0xE5, CHR 0xA2, CHR 0x83, CHR 0xE9, CHR 0x85, CHR 0x8D,
     CHR 0xE7, CHR 0xBD, CHR 0xAE, CHR 0xE4, CHR 0xB8, CHR 0x8E, CHR 0xE5, CHR 0xBC, CHR 0x80,
     CHR 0xE5, CHR 0x8F, CHR 0x91, CHR 0xE6, CHR 0xB5, CHR 0x81, CHR 0xE7, CHR 0xA8, CHR 0x8B],
     [CHR 0xE7, CHR 0xBC, CHR 0x96, CHR 0xE5, CHR 0x86, CHR 0x99, CHR 0xE7, CHR 0x94, CHR 0xA8,
     CHR 0xE6, CHR 0x88, CHR 0xB7, CHR 0xE6, CHR 0x89, CHR 0x8B, CHR 0xE5, CHR 0x86, CHR 0x8C,
     CHR 0xEF, CHR 0xBC, CHR 0x8C, CHR 0xE8, CHR 0xAF, CHR 0xB4, CHR 0xE6, CHR 0x98, CHR 0x8E,
     CHR 0xE7, CHR 0xB3, CHR 0xBB, CHR 0xE7, CHR 0xBB, CHR 0x9F, CHR 0xE4, CHR 0xBD, CHR 0xBF,
     CHR 0xE7, CHR 0x94, CHR 0xA8, CHR 0xE6, CHR 0x96, CHR 0xB9, CHR 0xE6, CHR 0xB3, CHR 0x95],
     [CHR 0xE6, CHR 0x95, CHR 0xB4, CHR 0xE7, CHR 0x90, CHR 0x86, CHR 0xE6, CHR 0x9E, CHR 0xB6,
     CHR 0xE6, CHR 0x9E, CHR 0x84, CHR 0xE8, CHR 0xAE, CHR 0xBE, CHR 0xE8, CHR 0xAE, CHR 0xA1,
     CHR 0xE6, CHR 0x96, CHR 0x87, CHR 0xE6, CHR 0xA1, CHR 0xA3, CHR 0xEF, CHR 0xBC, CHR 0x8C,
     CHR 0xE6, CHR 0x8F, CHR 0x8F, CHR 0xE8, CHR 0xBF, CHR 0xB0, CHR 0xE7, CHR 0xB3, CHR 0xBB,
     CHR 0xE7, CHR 0xBB, CHR 0x9F, CHR 0xE7, CHR 0xBB, CHR 0x93, CHR 0xE6, CHR 0x9E, CHR 0x84]]"

definition generate_document_tasks :: "int \<Rightarrow> string option \<Rightarrow> string list" where
  "generate_document_tasks num_agents project_id = slice_to document_tasks num_agents"

text \<open>The list \<^verbatim>\<open>tasks\<close> of \<^verbatim>\<open>_generate_debug_tasks\<close>.\<close>

definition debug_tasks :: "string list" where
  "debug_tasks =
    [[CHR 0xE5, CHR 0xAE, CHR 0x9A, CHR 0xE4, CHR 0xBD, CHR 0x8D, CHR 0xE8, CHR 0xBF, CHR 0x90,
     CHR 0xE8, CHR 0xA1, CHR 0x8C, CHR 0xE6, CHR 0x97, CHR 0xB6, CHR 0xE9, CHR 0x94, CHR 0x99,
     CHR 0xE8, CHR 0xAF, CHR 0xAF, CHR 0xEF, CHR 0xBC, CHR 0x8C, CHR 0xE5, CHR 0x88, CHR 0x86,
     CHR 0xE6, CHR 0x9E, CHR 0x90, CHR 0xE5, CHR 0xA0, CHR 0x86, CHR 0xE6, CHR 0xA0, CHR 0x88,
     CHR 0xE8, CHR 0xB7, CHR 0x9F, CHR 0xE8, CHR 0xB8, CHR 0xAA],
     [CHR 0xE6, CHR 0x8E, CHR 0x92, CHR 0xE6, CHR 0x9F, CHR 0xA5, CHR 0xE9, CHR 0x80, CHR 0xBB,
     CHR 0xE8, CHR 0xBE, CHR 0x91, CHR 0xE9, CHR 0x94, CHR 0x99, CHR 0xE8, CHR 0xAF, CHR 0xAF,
     CHR 0xEF, CHR 0xBC, CHR 0x8C, CHR 0xE9, CHR 0xAA, CHR 0x8C, CHR 0xE8, CHR 0xAF, CHR 0x81,
     CHR 0xE7, CHR 0xAE, CHR 0x97, CHR 0xE6, CHR 0xB3, CHR 0x95, CHR 0xE6, CHR 0xAD, CHR 0xA3,
     CHR 0xE7, CHR 0xA1, CHR 0xAE, CHR 0xE6, CHR 0x80, CHR 0xA7],
     [CHR 0xE6, CHR 0xA3, CHR 0x80, CHR 0xE6, CHR 0x9F, CHR 0xA5, CHR 0xE6, CHR 0x95, CHR 0xB0,
     CHR 0xE6, CHR 0x8D, CHR 0xAE, CHR 0xE5, CHR 0xA4, CHR 0x84, CHR 0xE7, CHR 0x90, CHR 0x86,
     CHR 0xE9, CHR 0x94, CHR 0x99, CHR 0xE8, CHR 0xAF, CHR 0xAF, CHR 0xEF, CHR 0xBC, CHR 0x8C,
     CHR 0xE9, CHR 0xAA, CHR 0x8C, CHR 0xE8, CHR 0xAF, CHR 0x81, CHR 0xE8, CHR 0xBE, CHR 0x93,
     CHR 0xE5, CHR 0x85, CHR 0xA5, CHR 0xE8, CHR 0xBE, CHR 0x93, CHR 0xE5, CHR 0x87, CHR 0xBA],
     [CHR 0xE5, CHR 0x88, CHR 0x86, CHR 0xE6, CHR 0x9E, CHR 0x90, CHR 0xE6, CHR 0x80, CHR 0xA7,
     CHR 0xE8, CHR 0x83, CHR 0xBD, CHR 0xE9, CHR 0x97, CHR 0xAE, CHR 0xE9, CHR 0xA2, CHR 0x98,
     CHR 0xEF, CHR 0xBC, CHR 0x8C, CHR 0xE8, CHR 0xAF, CHR 0x86, CHR 0xE5, CHR 0x88, CHR 0xAB,
     CHR 0xE7, CHR 0x93, CHR 0xB6, CHR 0xE9, CHR 0xA2, CHR 0x88, CHR 0xE4, CHR 0xBB, CHR 0xA3,
     CHR 0xE7, CHR 0xA0, CHR 0x81],
     [CHR 0xE9, CHR 0xAA, CHR 0x8C, CHR 0xE8, CHR 0xAF, CHR 0x81, CHR 0xE5, CHR 0xB9, CHR 0xB6,
     CHR 0xE5, CHR 0x8F, CHR 0x91, CHR 0xE5, CHR 0x9C, CHR 0xBA, CHR 0xE6, CHR 0x99, CHR 0xAF,
     CHR 0xE4, CHR 0xB8, CHR 0x8B, CHR 0xE7, CHR 0x9A, CHR 0x84, CHR 0xE7, CHR 0xBA, CHR 0xBF,
     CHR 0xE7, CHR 0xA8, CHR 0x8B, CHR 0xE5, CHR 0xAE, CHR 0x89, CHR 0xE5, CHR 0x85, CHR 0xA8,
     CHR 0xE9, CHR 0x97, CHR 0xAE, CHR 0xE9, CHR 0xA2, CHR 0x98]]"

definition generate_debug_tasks :: "int \<Rightarrow> string option \<Rightarrow> string list" where
  "generate_debug_tasks num_agents project_id = slice_to debug_tasks num_agents"

text \<open>
  The dict \<^verbatim>\<open>task_generators\<close>, and the lookup that raises \<^verbatim>\<open>ValueError\<close> for a key that
  is not in it.  The message is the prefix of the source followed by the key.
\<close>

definition task_generators :: "(string \<times> (int \<Rightarrow> string option \<Rightarrow> string list)) list" where
  "task_generators =
     [(''code_review'', generate_review_tasks),
      (''refactor'', generate_refactor_tasks),
      (''test'', generate_test_tasks),
      (''document'', generate_document_tasks),
      (''debug'', generate_debug_tasks)]"

definition unsupported_task_type :: string where
  "unsupported_task_type =
     [CHR 0xE4, CHR 0xB8, CHR 0x8D, CHR 0xE6, CHR 0x94, CHR 0xAF, CHR 0xE6, CHR 0x8C, CHR 0x81,
     CHR 0xE7, CHR 0x9A, CHR 0x84, CHR 0xE4, CHR 0xBB, CHR 0xBB, CHR 0xE5, CHR 0x8A, CHR 0xA1,
     CHR 0xE7, CHR 0xB1, CHR 0xBB, CHR 0xE5, CHR 0x9E, CHR 0x8B] @ '': ''"

definition generate_coding_tasks :: "string \<Rightarrow> int \<Rightarrow> string option \<Rightarrow> error + string list" where
  "generate_coding_tasks task_type num_agents project_id =
     (case map_of task_generators task_type of
        None \<Rightarrow> Inl (ValueError (unsupported_task_type @ task_type))
      | Some generator \<Rightarrow> Inr (generator num_agents project_id))"

section \<open>Helper lemmas\<close>

lemma submit_all_eq:
  "submit_all run ex ts futures =
     (futures @ map (\<lambda>t. run (SubAgent_init t None)) ts,
      ex\<lparr>invoked := invoked ex @ map (\<lambda>t. SubAgent_init t None) ts\<rparr>)"
  by (induction ts arbitrary: ex futures) (simp_all add: submit_def)

lemma next_choice_less: "0 < n \<Longrightarrow> next_choice choices n < n"
  by (simp add: next_choice_def split: list.splits)

lemma as_completed_Nil: "as_completed [] choices = []"
  by (simp add: as_completed.simps)

lemma as_completed_step:
  assumes "xs \<noteq> []" and "k = next_choice choices (length xs)"
  shows "as_completed xs choices = xs ! k # as_completed (take k xs @ drop (Suc k) xs) (tl choices)"
  using assms by (cases xs) (simp_all add: as_completed.simps Let_def)

lemma as_completed_map: "as_completed (map g xs) choices = map g (as_completed xs choices)"
proof (induction xs choices rule: as_completed.induct)
  case (1 choices)
  show ?case by (simp add: as_completed_Nil)
next
  case (2 f fs choices)
  let ?xs = "f # fs"
  let ?k = "next_choice choices (length ?xs)"
  have k: "?k < length ?xs" by (rule next_choice_less) simp
  have "as_completed (map g ?xs) choices
      = map g ?xs ! ?k # as_completed (take ?k (map g ?xs) @ drop (Suc ?k) (map g ?xs)) (tl choices)"
    by (rule as_completed_step) simp_all
  also have "\<dots> = g (?xs ! ?k) # as_completed (map g (take ?k ?xs @ drop (Suc ?k) ?xs)) (tl choices)"
    using k by (simp only: nth_map take_map drop_map map_append)
  also have "\<dots> = g (?xs ! ?k) # map g (as_completed (take ?k ?xs @ drop (Suc ?k) ?xs) (tl choices))"
    using "2.IH" [of ?k] by simp
  also have "\<dots> = map g (as_completed ?xs choices)"
    using as_completed_step [of ?xs ?k choices] by simp
  finally show ?case .
qed

lemma mset_as_completed: "mset (as_completed xs choices) = mset xs"
proof (induction xs choices rule: as_completed.induct)
  case (1 choices)
  show ?case by (simp add: as_completed_Nil)
next
  case (2 f fs choices)
  let ?xs = "f # fs"
  let ?k = "next_choice choices (length ?xs)"
  have k: "?k < length ?xs" by (rule next_choice_less) simp
  have "mset (as_completed ?xs choices)
      = add_mset (?xs ! ?k) (mset (take ?k ?xs @ drop (Suc ?k) ?xs))"
    using as_completed_step [of ?xs ?k choices] "2.IH" [of ?k] by simp
  also have "\<dots> = mset (take ?k ?xs @ ?xs ! ?k # drop (Suc ?k) ?xs)" by simp
  also have "\<dots> = mset ?xs" using id_take_nth_drop [OF k] by simp
  finally show ?case .
qed

lemma length_as_completed: "length (as_completed xs choices) = length xs"
  using mset_as_completed [of xs choices] by (metis size_mset)

lemma as_completed_any_order: "mset ys = mset xs \<Longrightarrow> \<exists>choices. as_completed xs choices = ys"
proof (induction ys arbitrary: xs)
  case Nil
  then show ?case by (simp add: as_completed_Nil)
next
  case (Cons y ys)
  from Cons.prems have "y \<in> set xs" by (metis list.set_intros(1) set_mset_mset)
  then obtain k where k: "k < length xs" "xs ! k = y" by (auto simp: in_set_conv_nth)
  let ?rest = "take k xs @ drop (Suc k) xs"
  have "mset xs = add_mset y (mset ?rest)"
    using id_take_nth_drop [OF k(1)] k(2) by (metis mset.simps(2) mset_append union_mset_add_mset_right)
  with Cons.prems have "mset ys = mset ?rest" by simp
  from Cons.IH [OF this] obtain choices where c: "as_completed ?rest choices = ys" by blast
  have "xs \<noteq> []" using k(1) by auto
  moreover have "k = next_choice (k # choices) (length xs)" using k(1) by (simp add: next_choice_def)
  ultimately have "as_completed xs (k # choices) = y # ys"
    using as_completed_step [of xs k "k # choices"] k(2) c by simp
  then show ?case by blast
qed

lemma as_completed_nth: "as_completed xs choices = map (\<lambda>k. xs ! k) (yield_order (length xs) choices)"
proof -
  have "as_completed (map (\<lambda>k. xs ! k) [0..<length xs]) choices
      = map (\<lambda>k. xs ! k) (as_completed [0..<length xs] choices)"
    by (rule as_completed_map)
  then show ?thesis by (simp add: map_nth yield_order_def)
qed

lemma length_yield_order: "length (yield_order n choices) = n"
  by (simp add: yield_order_def length_as_completed)

lemma set_yield_order: "set (yield_order n choices) = {0..<n}"
  using mset_as_completed [of "[0..<n]" choices] unfolding yield_order_def
  by (metis mset_eq_setD set_upt)


lemma yield_order_nth_less: "i < n \<Longrightarrow> yield_order n choices ! i < n"
  using set_yield_order [of n choices] length_yield_order [of n choices]
  by (metis atLeastLessThan_iff nth_mem)


lemma collect_Inr:
  "collect idx fs results = Inr rs \<Longrightarrow>
     \<exists>rs'. rs = results @ rs' \<and> length rs' = length fs
          \<and> (\<forall>k < length fs. record_outcome (idx + k) (fs ! k) = Inr (rs' ! k))"
proof (induction fs arbitrary: idx results)
  case Nil
  then show ?case by simp
next
  case (Cons f fs)
  from Cons.prems obtain r where r: "record_outcome idx f = Inr r"
    and c: "collect (idx + 1) fs (results @ [r]) = Inr rs"
    by (auto split: sum.splits)
  from Cons.IH [OF c] obtain rs' where rs': "rs = (results @ [r]) @ rs'" "length rs' = length fs"
    and nth: "\<And>k. k < length fs \<Longrightarrow> record_outcome (idx + 1 + k) (fs ! k) = Inr (rs' ! k)"
    by blast
  have "record_outcome (idx + k) ((f # fs) ! k) = Inr ((r # rs') ! k)" if "k < length (f # fs)" for k
    using that r nth by (cases k) simp_all
  with rs' show ?case by (intro exI [of _ "r # rs'"]) simp
qed

lemma caught_record_outcome: "caught f \<Longrightarrow> \<exists>r. record_outcome idx f = Inr r"
  by (cases f) auto

lemma collect_caught:
  "\<forall>f \<in> set fs. caught f \<Longrightarrow> \<exists>rs. collect idx fs results = Inr rs"
proof (induction fs arbitrary: idx results)
  case Nil
  then show ?case by simp
next
  case (Cons f fs)
  then obtain r where "record_outcome idx f = Inr r"
    using caught_record_outcome [of f idx] by auto
  with Cons show ?case by simp
qed

lemma split_subagents_with_eq:
  assumes "1 \<le> num_agents"
  shows "split_subagents_with run num_agents ts choices =
     (collect 1 (map (\<lambda>k. run (SubAgent_init (ts ! k) None)) (yield_order (length ts) choices)) [],
      map (\<lambda>t. SubAgent_init t None) ts)"
proof -
  have "as_completed (map (\<lambda>t. run (SubAgent_init t None)) ts) choices
      = map (\<lambda>k. run (SubAgent_init (ts ! k) None)) (yield_order (length ts) choices)"
    (is "?l = ?r")
  proof -
    have "?l = map (\<lambda>t. run (SubAgent_init t None)) (as_completed ts choices)"
      by (rule as_completed_map)
    also have "\<dots> = ?r" unfolding as_completed_nth [of ts] by (simp only: map_map comp_def)
    finally show ?thesis .
  qed
  then show ?thesis using assms
    by (simp add: split_subagents_with_def ThreadPoolExecutor_def submit_all_eq)
qed

lemma split_subagents_with_Inr:
  assumes "fst (split_subagents_with run num_agents ts choices) = Inr results"
  shows "1 \<le> num_agents \<and> length results = length ts
       \<and> (\<forall>k < length ts.
             record_outcome (Suc k) (run (SubAgent_init (ts ! (yield_order (length ts) choices ! k)) None))
               = Inr (results ! k))"
proof -
  have n: "1 \<le> num_agents"
    using assms by (auto simp: split_subagents_with_def ThreadPoolExecutor_def split: if_splits)
  let ?fs = "map (\<lambda>k. run (SubAgent_init (ts ! k) None)) (yield_order (length ts) choices)"
  from assms have "collect 1 ?fs [] = Inr results"
    by (simp add: split_subagents_with_eq [OF n])
  from collect_Inr [OF this]
  have "length results = length ?fs"
    and "\<forall>k < length ?fs. record_outcome (1 + k) (?fs ! k) = Inr (results ! k)"
    by auto
  then show ?thesis using n by (simp add: length_yield_order)
qed

lemma split_subagents_with_caught:
  assumes "1 \<le> num_agents" and "\<forall>t \<in> set ts. caught (run (SubAgent_init t None))"
  shows "\<exists>results. split_subagents_with run num_agents ts choices
           = (Inr results, map (\<lambda>t. SubAgent_init t None) ts)"
proof -
  let ?fs = "map (\<lambda>k. run (SubAgent_init (ts ! k) None)) (yield_order (length ts) choices)"
  have "caught f" if "f \<in> set ?fs" for f
  proof -
    from that obtain k where "k \<in> set (yield_order (length ts) choices)"
      and f: "f = run (SubAgent_init (ts ! k) None)" by auto
    then have "k < length ts" by (simp add: set_yield_order)
    then have "ts ! k \<in> set ts" by simp
    with assms(2) f show ?thesis by simp
  qed
  then obtain rs where "collect 1 ?fs [] = Inr rs" using collect_caught [of ?fs 1 "[]"] by blast
  then show ?thesis by (simp add: split_subagents_with_eq [OF assms(1)])
qed

lemma record_outcome_task_id:
  "record_outcome idx f = Inr r \<Longrightarrow> map_of r ''task_id'' = Some (''T'' @ str_nat idx)"
  by (cases f) (auto split: if_splits option.splits)

lemma digit_val_digit_char: "d < 10 \<Longrightarrow> digit_val (digit_char d) = d"
  by (simp add: digit_val_def digit_char_def)

lemma nat_of_str_snoc: "nat_of_str (s @ [c]) = 10 * nat_of_str s + digit_val c"
  by (simp add: nat_of_str_def)

lemma nat_of_str_str_nat: "nat_of_str (str_nat n) = n"
proof (induction n rule: str_nat.induct)
  case (1 n)
  show ?case
  proof (cases "n < 10")
    case True
    then show ?thesis by (simp add: str_nat.simps [of n] nat_of_str_def digit_val_digit_char)
  next
    case False
    with 1 show ?thesis
      by (simp add: str_nat.simps [of n] nat_of_str_snoc digit_val_digit_char)
  qed
qed

lemma str_nat_inj: "str_nat n = str_nat m \<longleftrightarrow> n = m"
  by (metis nat_of_str_str_nat)

lemma record_outcome_shape:
  assumes "record_outcome idx f = Inr r"
  shows "(''result'' \<in> dom (map_of r) \<longleftrightarrow> map_of r ''status'' = Some ''success'')
       \<and> (''error'' \<in> dom (map_of r) \<longleftrightarrow> map_of r ''status'' = Some ''error'')
       \<and> (''result'' \<in> dom (map_of r) \<longleftrightarrow> ''error'' \<notin> dom (map_of r))"
  using assms by (cases f) (auto simp: dom_def split: if_splits option.splits)

lemma record_outcome_cases:
  assumes "record_outcome idx f = Inr r"
  shows "case f of
           Raised exc \<Rightarrow> map_of r ''status'' = Some ''error'' \<and> map_of r ''error'' = str exc
         | Returned res \<Rightarrow> map_of r ''status'' = Some ''success'' \<and> map_of r ''result'' = Some res"
  using assms by (cases f) (auto split: if_splits option.splits)

section \<open>Claims about MorphAgent.split\_subagents\<close>

text \<open>
  Claim C5.  For every concurrency budget of at least 1, a call with an empty list of task
  templates returns the empty outcome list and invokes no worker, whatever the worker and
  the choices of \<^const>\<open>as_completed\<close>.
\<close>

theorem split_subagents_empty:
  assumes "1 \<le> num_agents"
  shows "split_subagents_with run num_agents [] choices = (Inr [], [])"
  using assms
  by (simp add: split_subagents_with_def ThreadPoolExecutor_def as_completed_Nil)

theorem split_subagents_empty_witness:
  "(1::int) \<le> 4 \<and> split_subagents_with SubAgent_run 4 [] [3, 1] = (Inr [], [])"
proof -
  have h1: "(1::int) \<le> 4" by simp
  show ?thesis using h1 split_subagents_empty [OF h1, of SubAgent_run "[3, 1]"] by simp
qed

text \<open>
  Claim C6.  For every concurrency budget below 1 and every list of task templates, the call
  raises the error of the executor's constructor (\<^verbatim>\<open>ValueError\<close>), whatever the workers
  and the schedule would have been: no task is submitted, no worker is invoked and no
  outcome list is returned.
\<close>

theorem split_subagents_invalid_budget:
  assumes "num_agents < 1"
  shows "split_subagents_with run num_agents task_templates choices
           = (Inl (ValueError ''max_workers must be greater than 0''), [])"
  using assms by (simp add: split_subagents_with_def ThreadPoolExecutor_def)

theorem split_subagents_invalid_budget_witness:
  "(0::int) < 1
   \<and> split_subagents_with SubAgent_run 0 [''a'', ''b''] [0, 1]
       = (Inl (ValueError ''max_workers must be greater than 0''), [])"
proof -
  have h: "(0::int) < 1" by simp
  show ?thesis
    using h split_subagents_invalid_budget [OF h, of SubAgent_run "[''a'', ''b'']" "[0, 1]"]
    by simp
qed

text \<open>
  Claim C4.  Every outcome dict in a returned list has the key \<^verbatim>\<open>result\<close> if and only if its
  status is \<^verbatim>\<open>success\<close>, and the key \<^verbatim>\<open>error\<close> if and only if its status is \<^verbatim>\<open>error\<close>; it
  has exactly one of the two keys.
\<close>

theorem split_subagents_outcome_shape:
  assumes "fst (split_subagents_with run num_agents task_templates choices) = Inr results"
    and "r \<in> set results"
  shows "(''result'' \<in> dom (map_of r) \<longleftrightarrow> map_of r ''status'' = Some ''success'')
       \<and> (''error'' \<in> dom (map_of r) \<longleftrightarrow> map_of r ''status'' = Some ''error'')
       \<and> (''result'' \<in> dom (map_of r) \<longleftrightarrow> ''error'' \<notin> dom (map_of r))"
proof -
  from assms(2) obtain k where k: "k < length results" "results ! k = r"
    by (auto simp: in_set_conv_nth)
  from split_subagents_with_Inr [OF assms(1)] k
  obtain f where "record_outcome (Suc k) f = Inr r" by auto
  then show ?thesis by (rule record_outcome_shape)
qed

theorem split_subagents_outcome_shape_witness:
  "fst (split_subagents_with
          (\<lambda>a. if task a = ''d1'' then Raised (Exn True (Some ''boom'')) else Returned (task a @ ''-done''))
          3 [''d0'', ''d1''] [1])
     = Inr [[(''task_id'', ''T1''), (''status'', ''error''), (''error'', ''boom'')],
            [(''task_id'', ''T2''), (''status'', ''success''), (''result'', ''d0-done'')]]
   \<and> (''error'' \<in> dom (map_of [(''task_id'', ''T1''), (''status'', ''error''), (''error'', ''boom'')])
        \<longleftrightarrow> map_of [(''task_id'', ''T1''), (''status'', ''error''), (''error'', ''boom'')] ''status''
              = Some ''error'')
   \<and> (''result'' \<in> dom (map_of [(''task_id'', ''T1''), (''status'', ''error''), (''error'', ''boom'')])
        \<longleftrightarrow> ''error'' \<notin> dom (map_of [(''task_id'', ''T1''), (''status'', ''error''), (''error'', ''boom'')]))"
proof -
  let ?run = "\<lambda>a. if task a = ''d1'' then Raised (Exn True (Some ''boom'')) else Returned (task a @ ''-done'')"
  let ?r = "[(''task_id'', ''T1''), (''status'', ''error''), (''error'', ''boom'')]"
  let ?results = "[?r, [(''task_id'', ''T2''), (''status'', ''success''), (''result'', ''d0-done'')]]"
  have h1: "fst (split_subagents_with ?run 3 [''d0'', ''d1''] [1]) = Inr ?results"
    by code_simp
  have h2: "?r \<in> set ?results" by simp
  show ?thesis using h1 split_subagents_outcome_shape [OF h1 h2] by blast
qed

text \<open>
  Claim C10.  \<^verbatim>\<open>SubAgent(t).run()\<close> returns the string \<^verbatim>\<open>"SubAgent completed task: "\<close>
  followed by \<open>t\<close> and never raises; hence, when the method dispatches these workers, it
  returns one outcome for each template, and every returned outcome has status
  \<^verbatim>\<open>success\<close> and its result is that string for one of the submitted templates.
\<close>

theorem SubAgent_run_total:
  "SubAgent_run (SubAgent_init t c) = Returned (''SubAgent completed task: '' @ t)
   \<and> (1 \<le> num_agents \<longrightarrow>
        (\<exists>results. fst (split_subagents num_agents task_templates choices) = Inr results
           \<and> length results = length task_templates
           \<and> (\<forall>r \<in> set results.
                 map_of r ''status'' = Some ''success''
               \<and> (\<exists>t' \<in> set task_templates.
                     map_of r ''result'' = Some (''SubAgent completed task: '' @ t')))))"
proof (intro conjI impI)
  show run: "SubAgent_run (SubAgent_init t c) = Returned (''SubAgent completed task: '' @ t)" for t c
    by (simp add: SubAgent_run_def SubAgent_init_def)
next
  assume n: "1 \<le> num_agents"
  let ?n = "length task_templates"
  have "\<forall>t \<in> set task_templates. caught (SubAgent_run (SubAgent_init t None))"
    by (simp add: SubAgent_run_def)
  from split_subagents_with_caught [OF n this, of choices]
  obtain results where eq: "fst (split_subagents num_agents task_templates choices) = Inr results"
    by (auto simp: split_subagents_def)
  then have eq': "fst (split_subagents_with SubAgent_run num_agents task_templates choices) = Inr results"
    by (simp add: split_subagents_def)
  note facts = split_subagents_with_Inr [OF eq']
  have "map_of r ''status'' = Some ''success''
      \<and> (\<exists>t' \<in> set task_templates. map_of r ''result'' = Some (''SubAgent completed task: '' @ t'))"
    if "r \<in> set results" for r
  proof -
    from that obtain k where k: "k < ?n" "results ! k = r"
      using facts by (auto simp: in_set_conv_nth)
    let ?t = "task_templates ! (yield_order ?n choices ! k)"
    have "?t \<in> set task_templates" using yield_order_nth_less [OF k(1)] by simp
    moreover have "record_outcome (Suc k) (SubAgent_run (SubAgent_init ?t None)) = Inr r"
      using facts k by simp
    then have "map_of r ''status'' = Some ''success''
             \<and> map_of r ''result'' = Some (''SubAgent completed task: '' @ ?t)"
      by (auto simp: SubAgent_run_def SubAgent_init_def)
    ultimately show ?thesis by blast
  qed
  with eq facts
  show "\<exists>results. fst (split_subagents num_agents task_templates choices) = Inr results
           \<and> length results = length task_templates
           \<and> (\<forall>r \<in> set results.
                 map_of r ''status'' = Some ''success''
               \<and> (\<exists>t' \<in> set task_templates.
                     map_of r ''result'' = Some (''SubAgent completed task: '' @ t')))"
    by blast
qed

theorem SubAgent_run_total_witness:
  "(1::int) \<le> 2
   \<and> SubAgent_run (SubAgent_init ''a'' None) = Returned (''SubAgent completed task: '' @ ''a'')
   \<and> (\<exists>results. fst (split_subagents 2 [''a'', ''b''] [1]) = Inr results
           \<and> length results = length [''a'', ''b'']
           \<and> (\<forall>r \<in> set results.
                 map_of r ''status'' = Some ''success''
               \<and> (\<exists>t' \<in> set [''a'', ''b''].
                     map_of r ''result'' = Some (''SubAgent completed task: '' @ t'))))"
proof -
  have h1: "(1::int) \<le> 2" by simp
  show ?thesis
    using h1 SubAgent_run_total [of "''a''" None 2 "[''a'', ''b'']" "[1]"] by blast
qed

text \<open>
  Claim C1, as stated: the outcome at position \<open>i\<close> carries the label \<open>T<i+1>\<close> and belongs
  to the \<open>i\<close>-th submitted template, whatever the order in which the workers finish.  It
  fails when \<^verbatim>\<open>as_completed\<close> yields the second of two futures first: the outcome labelled
  \<open>T1\<close> is the one of template \<open>b\<close>, not of the first template \<open>a\<close>.
\<close>

theorem split_subagents_submission_order_counterexample:
  "fst (split_subagents 2 [''a'', ''b''] [1])
       = Inr [[(''task_id'', ''T1''), (''status'', ''success''), (''result'', ''SubAgent completed task: b'')],
              [(''task_id'', ''T2''), (''status'', ''success''), (''result'', ''SubAgent completed task: a'')]]
   \<and> map_of [(''task_id'', ''T1''), (''status'', ''success''), (''result'', ''SubAgent completed task: b'')]
        ''result''
       \<noteq> Some (''SubAgent completed task: '' @ [''a'', ''b''] ! 0)"
  by code_simp

text \<open>
  Claim C1, amended: the returned outcome sequence follows the order in which
  \<^verbatim>\<open>as_completed\<close> yields the futures, a permutation of the submission positions that the
  program does not fix.  The outcome at position \<open>i\<close> carries the label \<open>T<i+1>\<close> and is the
  outcome of the \<open>i\<close>-th yielded future, that is of the template submitted at position
  \<open>yield_order n choices ! i\<close>; it is the outcome of the \<open>i\<close>-th submitted template where that
  position is \<open>i\<close>.
\<close>

theorem split_subagents_yield_order:
  assumes "fst (split_subagents_with run num_agents task_templates choices) = Inr results"
  shows "length results = length task_templates
       \<and> mset (yield_order (length task_templates) choices) = mset [0..<length task_templates]
       \<and> (\<forall>i < length task_templates.
             map_of (results ! i) ''task_id'' = Some (''T'' @ str_nat (i + 1))
           \<and> yield_order (length task_templates) choices ! i < length task_templates
           \<and> record_outcome (i + 1)
                (run (SubAgent_init (task_templates ! (yield_order (length task_templates) choices ! i)) None))
               = Inr (results ! i)
           \<and> (yield_order (length task_templates) choices ! i = i \<longrightarrow>
                 record_outcome (i + 1) (run (SubAgent_init (task_templates ! i) None))
                   = Inr (results ! i)))"
proof -
  let ?n = "length task_templates"
  note facts = split_subagents_with_Inr [OF assms]
  have nth: "record_outcome (i + 1)
                (run (SubAgent_init (task_templates ! (yield_order ?n choices ! i)) None))
               = Inr (results ! i)" if "i < ?n" for i
    using facts that by simp
  have "mset (yield_order ?n choices) = mset [0..<?n]"
    unfolding yield_order_def by (rule mset_as_completed)
  moreover have "\<forall>i < ?n.
             map_of (results ! i) ''task_id'' = Some (''T'' @ str_nat (i + 1))
           \<and> yield_order ?n choices ! i < ?n
           \<and> record_outcome (i + 1)
                (run (SubAgent_init (task_templates ! (yield_order ?n choices ! i)) None))
               = Inr (results ! i)
           \<and> (yield_order ?n choices ! i = i \<longrightarrow>
                 record_outcome (i + 1) (run (SubAgent_init (task_templates ! i) None))
                   = Inr (results ! i))"
  proof (intro allI impI conjI)
    fix i assume i: "i < ?n"
    show "map_of (results ! i) ''task_id'' = Some (''T'' @ str_nat (i + 1))"
      using nth [OF i] by (rule record_outcome_task_id)
    show "yield_order ?n choices ! i < ?n" using i by (rule yield_order_nth_less)
    show "record_outcome (i + 1)
                (run (SubAgent_init (task_templates ! (yield_order ?n choices ! i)) None))
               = Inr (results ! i)"
      by (rule nth [OF i])
    assume "yield_order ?n choices ! i = i"
    with nth [OF i]
    show "record_outcome (i + 1) (run (SubAgent_init (task_templates ! i) None)) = Inr (results ! i)"
      by simp
  qed
  ultimately show ?thesis using facts by blast
qed

theorem split_subagents_yield_order_witness:
  "fst (split_subagents_with SubAgent_run 2 [''a'', ''b''] [1])
       = Inr [[(''task_id'', ''T1''), (''status'', ''success''), (''result'', ''SubAgent completed task: b'')],
              [(''task_id'', ''T2''), (''status'', ''success''), (''result'', ''SubAgent completed task: a'')]]
   \<and> yield_order (length [''a'', ''b'']) [1] = [1, 0]
   \<and> mset (yield_order (length [''a'', ''b'']) [1]) = mset [0..<length [''a'', ''b'']]
   \<and> record_outcome (0 + 1)
        (SubAgent_run (SubAgent_init ([''a'', ''b''] ! (yield_order (length [''a'', ''b'']) [1] ! 0)) None))
       = Inr ([[(''task_id'', ''T1''), (''status'', ''success''), (''result'', ''SubAgent completed task: b'')],
               [(''task_id'', ''T2''), (''status'', ''success''), (''result'', ''SubAgent completed task: a'')]]
              ! 0)"
proof -
  let ?results = "[[(''task_id'', ''T1''), (''status'', ''success''), (''result'', ''SubAgent completed task: b'')],
              [(''task_id'', ''T2''), (''status'', ''success''), (''result'', ''SubAgent completed task: a'')]]"
  have h1: "fst (split_subagents_with SubAgent_run 2 [''a'', ''b''] [1]) = Inr ?results"
    by code_simp
  have h2: "yield_order (length [''a'', ''b'']) [1] = [1, 0]" by code_simp
  have h3: "0 < length [''a'', ''b'']" by simp
  show ?thesis using h1 h2 h3 split_subagents_yield_order [OF h1] by blast
qed

text \<open>
  Claim C2.  For every concurrency budget of at least 1 and every list of \<open>n\<close> task
  templates, the method returns exactly \<open>n\<close> outcomes, one for each submitted template:
  one worker was invoked for each template, and the results in the outcomes are, as a
  multiset, the strings that the workers of the templates return.  The labels of the
  returned outcomes are \<open>T1, ..., Tn\<close>: as a list, hence as a multiset, with no duplicates
  and no gaps.
\<close>

theorem split_subagents_complete:
  assumes "1 \<le> num_agents"
  shows "\<exists>results. split_subagents num_agents task_templates choices
               = (Inr results, map (\<lambda>t. SubAgent_init t None) task_templates)
           \<and> length results = length task_templates
           \<and> map (\<lambda>r. map_of r ''task_id'') results
               = map (\<lambda>i. Some (''T'' @ str_nat i)) [1..<Suc (length task_templates)]
           \<and> mset (map (\<lambda>r. map_of r ''task_id'') results)
               = image_mset (\<lambda>i. Some (''T'' @ str_nat i)) (mset [1..<Suc (length task_templates)])
           \<and> distinct (map (\<lambda>r. map_of r ''task_id'') results)
           \<and> mset (map (\<lambda>r. map_of r ''result'') results)
               = image_mset (\<lambda>t. Some (''SubAgent completed task: '' @ t)) (mset task_templates)"
proof -
  let ?n = "length task_templates"
  let ?order = "yield_order ?n choices"
  let ?labels = "map (\<lambda>i. Some (''T'' @ str_nat i)) [1..<Suc ?n]"
  have "\<forall>t \<in> set task_templates. caught (SubAgent_run (SubAgent_init t None))"
    by (simp add: SubAgent_run_def)
  from split_subagents_with_caught [OF assms this, of choices]
  obtain results where eq: "split_subagents num_agents task_templates choices
               = (Inr results, map (\<lambda>t. SubAgent_init t None) task_templates)"
    by (auto simp: split_subagents_def)
  then have "fst (split_subagents_with SubAgent_run num_agents task_templates choices) = Inr results"
    by (simp add: split_subagents_def)
  note facts = split_subagents_with_Inr [OF this]
  have len: "length results = ?n" using facts by simp
  have nth: "record_outcome (Suc k) (SubAgent_run (SubAgent_init (task_templates ! (?order ! k)) None))
               = Inr (results ! k)" if "k < ?n" for k
    using facts that by simp
  have upt_len: "length [1..<Suc ?n] = ?n" by (simp only: length_upt diff_Suc_1)
  have labels: "map (\<lambda>r. map_of r ''task_id'') results = ?labels"
  proof (rule nth_equalityI)
    show "length (map (\<lambda>r. map_of r ''task_id'') results) = length ?labels"
      by (simp only: length_map upt_len len)
  next
    fix k assume "k < length (map (\<lambda>r. map_of r ''task_id'') results)"
    then have k: "k < ?n" by (simp only: length_map len)
    have "map_of (results ! k) ''task_id'' = Some (''T'' @ str_nat (Suc k))"
      using nth [OF k] by (rule record_outcome_task_id)
    moreover have "1 + k < Suc ?n" using k by simp
    then have "[1..<Suc ?n] ! k = 1 + k" by (rule nth_upt)
    then have "[1..<Suc ?n] ! k = Suc k" by simp
    then have "?labels ! k = Some (''T'' @ str_nat (Suc k))"
      using k upt_len by (simp only: nth_map)
    moreover have "map (\<lambda>r. map_of r ''task_id'') results ! k = map_of (results ! k) ''task_id''"
      using k len by (simp only: nth_map)
    ultimately show "map (\<lambda>r. map_of r ''task_id'') results ! k = ?labels ! k"
      by simp
  qed
  have inj: "inj_on (\<lambda>i. Some (''T'' @ str_nat i)) A" for A
    by (simp add: inj_on_def str_nat_inj)
  have d: "distinct ?labels"
    unfolding distinct_map using inj by (intro conjI distinct_upt)
  have res: "map (\<lambda>r. map_of r ''result'') results
      = map (\<lambda>k. Some (''SubAgent completed task: '' @ task_templates ! k)) ?order"
  proof (rule nth_equalityI)
    show "length (map (\<lambda>r. map_of r ''result'') results)
        = length (map (\<lambda>k. Some (''SubAgent completed task: '' @ task_templates ! k)) ?order)"
      using len by (simp add: length_yield_order)
  next
    fix k assume "k < length (map (\<lambda>r. map_of r ''result'') results)"
    then have k: "k < ?n" using len by simp
    have "map_of (results ! k) ''result''
        = Some (''SubAgent completed task: '' @ task_templates ! (?order ! k))"
      using record_outcome_cases [OF nth [OF k]] by (simp add: SubAgent_run_def SubAgent_init_def)
    then show "map (\<lambda>r. map_of r ''result'') results ! k
        = map (\<lambda>k. Some (''SubAgent completed task: '' @ task_templates ! k)) ?order ! k"
      using k len by (simp add: length_yield_order)
  qed
  have "mset (map (\<lambda>k. Some (''SubAgent completed task: '' @ task_templates ! k)) ?order)
      = image_mset (\<lambda>k. Some (''SubAgent completed task: '' @ task_templates ! k)) (mset [0..<?n])"
    using mset_as_completed [of "[0..<?n]" choices] by (simp add: yield_order_def)
  also have "\<dots> = image_mset (\<lambda>t. Some (''SubAgent completed task: '' @ t))
                     (mset (map (\<lambda>k. task_templates ! k) [0..<?n]))"
    by (simp add: multiset.map_comp comp_def)
  also have "\<dots> = image_mset (\<lambda>t. Some (''SubAgent completed task: '' @ t)) (mset task_templates)"
    by (simp only: map_nth)
  finally have resm: "mset (map (\<lambda>r. map_of r ''result'') results)
      = image_mset (\<lambda>t. Some (''SubAgent completed task: '' @ t)) (mset task_templates)"
    unfolding res .
  have "mset (map (\<lambda>r. map_of r ''task_id'') results)
      = image_mset (\<lambda>i. Some (''T'' @ str_nat i)) (mset [1..<Suc ?n])"
    unfolding labels by simp
  moreover have "distinct (map (\<lambda>r. map_of r ''task_id'') results)"
    unfolding labels by (rule d)
  ultimately show ?thesis using eq len labels resm by blast
qed

theorem split_subagents_complete_witness:
  "(1::int) \<le> 2
   \<and> (\<exists>results. split_subagents 2 [''x'', ''y'', ''z''] [2, 0]
               = (Inr results, map (\<lambda>t. SubAgent_init t None) [''x'', ''y'', ''z''])
           \<and> length results = length [''x'', ''y'', ''z'']
           \<and> map (\<lambda>r. map_of r ''task_id'') results
               = map (\<lambda>i. Some (''T'' @ str_nat i)) [1..<Suc (length [''x'', ''y'', ''z''])]
           \<and> mset (map (\<lambda>r. map_of r ''task_id'') results)
               = image_mset (\<lambda>i. Some (''T'' @ str_nat i)) (mset [1..<Suc (length [''x'', ''y'', ''z''])])
           \<and> distinct (map (\<lambda>r. map_of r ''task_id'') results)
           \<and> mset (map (\<lambda>r. map_of r ''result'') results)
               = image_mset (\<lambda>t. Some (''SubAgent completed task: '' @ t)) (mset [''x'', ''y'', ''z'']))"
proof -
  have h1: "(1::int) \<le> 2" by simp
  show ?thesis
    using h1 split_subagents_complete [OF h1, of "[''x'', ''y'', ''z'']" "[2, 0]"] by blast
qed




section \<open>Claims about CodingAgent.\_generate\_coding\_tasks\<close>

text \<open>
  Claim C9.  For each of the task types \<^verbatim>\<open>code_review\<close>, \<^verbatim>\<open>refactor\<close>, \<^verbatim>\<open>test\<close>,
  \<^verbatim>\<open>document\<close> and \<^verbatim>\<open>debug\<close> the catalog has five entries, and for every requested count
  \<open>num_agents \<ge> 0\<close> the method returns the first \<open>min num_agents 5\<close> entries of that
  catalog, in catalog order; for every other task type it raises \<^verbatim>\<open>ValueError\<close>.
\<close>

theorem generate_coding_tasks_catalog:
  "(\<forall>(known_type, catalog) \<in> set [(''code_review'', review_tasks), (''refactor'', refactor_tasks),
        (''test'', test_tasks), (''document'', document_tasks), (''debug'', debug_tasks)].
       length catalog = 5
     \<and> (0 \<le> num_agents \<longrightarrow>
          generate_coding_tasks known_type num_agents project_id
            = Inr (take (nat (min num_agents 5)) catalog)))
   \<and> (task_type \<notin> {''code_review'', ''refactor'', ''test'', ''document'', ''debug''} \<longrightarrow>
        generate_coding_tasks task_type num_agents project_id
          = Inl (ValueError (unsupported_task_type @ task_type)))"
proof -
  have slice: "slice_to xs num_agents = take (nat (min num_agents 5)) xs"
    if "length xs = 5" and "0 \<le> num_agents" for xs :: "string list"
  proof (cases "num_agents \<le> 5")
    case True
    with that show ?thesis by (simp add: slice_to_def min_def)
  next
    case False
    with that show ?thesis by (simp add: slice_to_def min_def)
  qed
  have l1: "length review_tasks = 5" by (simp add: review_tasks_def)
  have l2: "length refactor_tasks = 5" by (simp add: refactor_tasks_def)
  have l3: "length test_tasks = 5" by (simp add: test_tasks_def)
  have l4: "length document_tasks = 5" by (simp add: document_tasks_def)
  have l5: "length debug_tasks = 5" by (simp add: debug_tasks_def)
  have g1: "generate_coding_tasks ''code_review'' num_agents project_id
              = Inr (slice_to review_tasks num_agents)"
    by (simp add: generate_coding_tasks_def task_generators_def generate_review_tasks_def)
  have g2: "generate_coding_tasks ''refactor'' num_agents project_id
              = Inr (slice_to refactor_tasks num_agents)"
    by (simp add: generate_coding_tasks_def task_generators_def generate_refactor_tasks_def)
  have g3: "generate_coding_tasks ''test'' num_agents project_id
              = Inr (slice_to test_tasks num_agents)"
    by (simp add: generate_coding_tasks_def task_generators_def generate_test_tasks_def)
  have g4: "generate_coding_tasks ''document'' num_agents project_id
              = Inr (slice_to document_tasks num_agents)"
    by (simp add: generate_coding_tasks_def task_generators_def generate_document_tasks_def)
  have g5: "generate_coding_tasks ''debug'' num_agents project_id
              = Inr (slice_to debug_tasks num_agents)"
    by (simp add: generate_coding_tasks_def task_generators_def generate_debug_tasks_def)
  have other: "generate_coding_tasks task_type num_agents project_id
                 = Inl (ValueError (unsupported_task_type @ task_type))"
    if "task_type \<notin> {''code_review'', ''refactor'', ''test'', ''document'', ''debug''}"
    using that by (simp add: generate_coding_tasks_def task_generators_def)
  show ?thesis
    using l1 l2 l3 l4 l5 other
    by (simp add: g1 g2 g3 g4 g5 slice)
qed

theorem generate_coding_tasks_catalog_witness:
  "(0::int) \<le> 3 \<and> ''deploy'' \<notin> {''code_review'', ''refactor'', ''test'', ''document'', ''debug''}
   \<and> generate_coding_tasks ''code_review'' 3 None = Inr (take 3 review_tasks)
   \<and> generate_coding_tasks ''debug'' 3 None = Inr (take 3 debug_tasks)
   \<and> generate_coding_tasks ''deploy'' 3 None = Inl (ValueError (unsupported_task_type @ ''deploy''))"
  using generate_coding_tasks_catalog [of 3 None "''deploy''"] by simp

end
